theory Spec2Isabelle
  imports Main "HOL-Library.Word"
begin

section \<open>Data model: the image buffer behind a JNI handle\<close>

text \<open>
  The three native entry points of \<^verbatim>\<open>native-lib.cpp\<close> receive a \<^verbatim>\<open>jlong\<close> that the
  caller obtained from an OpenCV matrix and cast it back: \<^verbatim>\<open>cv::Mat& mat = *(cv::Mat*)matAddr\<close>.
  A matrix is modelled by its header fields and its pixel bytes (8 bits per channel,
  channels interleaved, rows one after the other).  The heap maps an address to the
  matrix object that lives there.
\<close>

type_synonym uchar = "8 word"
type_synonym jint = "32 word"
type_synonym jlong = "64 word"

record Mat =
  rows :: nat
  cols :: nat
  channels :: nat
  data :: "uchar list"

type_synonym heap = "jlong \<Rightarrow> Mat option"

text \<open>
  Nothing in the source catches anything.  A call either returns or ends in one of two
  ways: the cast address holds no matrix (\<open>BadHandle\<close>; undefined behaviour in C++, kept
  as an outcome of its own so that no theorem can silently assume a valid handle), or a
  library call raises \<^verbatim>\<open>cv::Exception\<close>, which leaves the native function.
\<close>

datatype failure = BadHandle | CvException

section \<open>The OpenCV calls made by the source\<close>

text \<open>
  OpenCV is not part of the repository.  Each call the source makes is modelled by the
  behaviour the library documents for exactly the arguments the source passes.  The parts
  of the library that are computed in floating point, or whose constants differ between
  library versions, are parameters collected in \<open>cv_lib\<close>; every theorem below holds for all
  values of these parameters.
  \<^item> \<open>luma\<close>: the weighted sum of the blue, green and red byte that \<^verbatim>\<open>COLOR_BGR2GRAY\<close> stores.
  \<^item> \<open>gaussian_mean\<close>: for \<^verbatim>\<open>ADAPTIVE_THRESH_GAUSSIAN_C\<close>, the Gaussian-weighted mean of the
    \<open>blockSize \<times> blockSize\<close> neighbourhood of the pixel with the given index, as 8 bits.
  \<^item> \<open>otsu_level\<close>: the threshold that \<^verbatim>\<open>THRESH_OTSU\<close> selects for an image (the library
    computes it in floating point).
  \<^item> \<open>threshold_rejects_empty\<close>, \<open>adaptive_rejects_empty\<close>: whether \<^verbatim>\<open>cv::threshold\<close> and
    \<^verbatim>\<open>cv::adaptiveThreshold\<close> raise on an empty source (recent versions assert a non-empty
    source in the blur that the adaptive call runs; older ones return an empty result).
\<close>

record cv_lib =
  luma :: "uchar \<Rightarrow> uchar \<Rightarrow> uchar \<Rightarrow> uchar"
  gaussian_mean :: "nat \<Rightarrow> Mat \<Rightarrow> nat \<Rightarrow> uchar"
  otsu_level :: "Mat \<Rightarrow> nat"
  threshold_rejects_empty :: bool
  adaptive_rejects_empty :: bool

text \<open>\<^verbatim>\<open>cv::Mat::empty()\<close>: the matrix has no elements.\<close>

definition mat_empty :: "Mat \<Rightarrow> bool" where
  "mat_empty m = (rows m = 0 \<or> cols m = 0)"

text \<open>
  \<^verbatim>\<open>cv::cvtColor(src, dst, cv::COLOR_BGR2GRAY)\<close>: the source matrix must not be empty and
  must have 3 or 4 channels (blue, green, red and an ignored alpha), otherwise the call
  raises; the destination has the same size and one channel.
\<close>

fun bgr2gray_pixels :: "(uchar \<Rightarrow> uchar \<Rightarrow> uchar \<Rightarrow> uchar) \<Rightarrow> nat \<Rightarrow> uchar list \<Rightarrow> uchar list" where
  "bgr2gray_pixels Y scn (b # g # r # rest) = Y b g r # bgr2gray_pixels Y scn (drop (scn - 3) rest)"
| "bgr2gray_pixels Y scn _ = []"

definition cvtColor_BGR2GRAY :: "cv_lib \<Rightarrow> Mat \<Rightarrow> failure + Mat" where
  "cvtColor_BGR2GRAY lib src =
     (if mat_empty src then Inl CvException
      else if channels src \<noteq> 3 \<and> channels src \<noteq> 4 then Inl CvException
      else Inr \<lparr>rows = rows src, cols = cols src, channels = 1,
                data = bgr2gray_pixels (luma lib) (channels src) (data src)\<rparr>)"

text \<open>
  \<^verbatim>\<open>cv::threshold(src, dst, thresh, maxval, cv::THRESH_BINARY)\<close> on 8-bit data:
  \<open>dst(x,y) = maxval\<close> if \<open>src(x,y) > thresh\<close>, and \<open>0\<close> otherwise.  The comparison is strict.
  First the rule for the pixels, then the call.
\<close>

definition threshold_BINARY :: "nat \<Rightarrow> uchar \<Rightarrow> Mat \<Rightarrow> Mat" where
  "threshold_BINARY thresh maxval src =
     src\<lparr>data := map (\<lambda>p. if thresh < unat p then maxval else 0) (data src)\<rparr>"

definition cv_threshold_BINARY :: "cv_lib \<Rightarrow> nat \<Rightarrow> uchar \<Rightarrow> Mat \<Rightarrow> failure + Mat" where
  "cv_threshold_BINARY lib thresh maxval src =
     (if mat_empty src \<and> threshold_rejects_empty lib then Inl CvException
      else Inr (threshold_BINARY thresh maxval src))"

text \<open>
  \<^verbatim>\<open>cv::threshold(src, dst, 0, maxval, cv::THRESH_BINARY | cv::THRESH_OTSU)\<close>: the passed
  threshold is ignored, the library selects one from the image and applies it as above.
\<close>

definition cv_threshold_BINARY_OTSU :: "cv_lib \<Rightarrow> uchar \<Rightarrow> Mat \<Rightarrow> failure + Mat" where
  "cv_threshold_BINARY_OTSU lib maxval src = cv_threshold_BINARY lib (otsu_level lib src) maxval src"

text \<open>
  \<^verbatim>\<open>cv::adaptiveThreshold(src, dst, maxValue, ADAPTIVE_THRESH_GAUSSIAN_C, THRESH_BINARY,
  blockSize, C)\<close>: \<open>dst(x,y) = maxValue\<close> if \<open>src(x,y) > T(x,y)\<close>, and \<open>0\<close> otherwise, where
  \<open>T(x,y)\<close> is the Gaussian-weighted mean around the pixel minus \<open>C\<close>.  The source must be
  a single-channel 8-bit matrix, which it is wherever the function below calls it.
\<close>

definition adaptiveThreshold_GAUSSIAN_BINARY :: "cv_lib \<Rightarrow> uchar \<Rightarrow> nat \<Rightarrow> int \<Rightarrow> Mat \<Rightarrow> Mat" where
  "adaptiveThreshold_GAUSSIAN_BINARY lib maxValue blockSize C src =
     src\<lparr>data := map (\<lambda>i. if uint (gaussian_mean lib blockSize src i) - C < uint (data src ! i)
                             then maxValue else 0)
                      [0..<length (data src)]\<rparr>"

definition cv_adaptiveThreshold ::
    "cv_lib \<Rightarrow> uchar \<Rightarrow> nat \<Rightarrow> int \<Rightarrow> Mat \<Rightarrow> failure + Mat" where
  "cv_adaptiveThreshold lib maxValue blockSize C src =
     (if mat_empty src \<and> adaptive_rejects_empty lib then Inl CvException
      else Inr (adaptiveThreshold_GAUSSIAN_BINARY lib maxValue blockSize C src))"

section \<open>nativeApplyDithering\<close>

text \<open>
  The first statement of the function: \<^verbatim>\<open>if (mat.channels() > 1) cvtColor(mat, mat, BGR2GRAY)\<close>.
\<close>

definition convert_if_needed :: "cv_lib \<Rightarrow> Mat \<Rightarrow> failure + Mat" where
  "convert_if_needed lib mat =
     (if 1 < channels mat then cvtColor_BGR2GRAY lib mat else Inr mat)"

text \<open>The \<^verbatim>\<open>switch (algorithm)\<close> with its three cases and the empty default.\<close>

definition switch_algorithm :: "cv_lib \<Rightarrow> jint \<Rightarrow> Mat \<Rightarrow> failure + Mat" where
  "switch_algorithm lib algorithm mat =
     (if algorithm = 0 then cv_threshold_BINARY lib 128 255 mat
      else if algorithm = 1 then cv_adaptiveThreshold lib 255 11 2 mat
      else if algorithm = 2 then cv_threshold_BINARY_OTSU lib 255 mat
      else Inr mat)"

text \<open>
  Every library call writes its result into the matrix it reads (\<open>dst\<close> is \<open>mat\<close>), so
  the object at \<open>matAddr\<close> is replaced after each call that returns.  A call that raises
  has written nothing; what an earlier call wrote stays.
\<close>

definition nativeApplyDithering :: "cv_lib \<Rightarrow> heap \<Rightarrow> jlong \<Rightarrow> jint \<Rightarrow> (failure + unit) \<times> heap" where
  "nativeApplyDithering lib h matAddr algorithm =
     (case h matAddr of
        None \<Rightarrow> (Inl BadHandle, h)
      | Some mat \<Rightarrow>
          (case convert_if_needed lib mat of
             Inl e \<Rightarrow> (Inl e, h)
           | Inr gray \<Rightarrow>
               (let h1 = h(matAddr \<mapsto> gray)
                in (case switch_algorithm lib algorithm gray of
                      Inl e \<Rightarrow> (Inl e, h1)
                    | Inr out \<Rightarrow> (Inr (), h1(matAddr \<mapsto> out))))))"

text \<open>
  The grayscale reduction alone: the function above with its \<^verbatim>\<open>switch\<close> removed.  It is the
  yardstick for calls with a selector that no case matches.
\<close>

definition grayscale_only :: "cv_lib \<Rightarrow> heap \<Rightarrow> jlong \<Rightarrow> (failure + unit) \<times> heap" where
  "grayscale_only lib h matAddr =
     (case h matAddr of
        None \<Rightarrow> (Inl BadHandle, h)
      | Some mat \<Rightarrow>
          (case convert_if_needed lib mat of
             Inl e \<Rightarrow> (Inl e, h)
           | Inr gray \<Rightarrow> (Inr (), h(matAddr \<mapsto> gray))))"

section \<open>nativeProcessImage\<close>

text \<open>\<^verbatim>\<open>std::to_string\<close> of a matrix dimension (never negative): its decimal digits.\<close>

definition digit_char :: "nat \<Rightarrow> char" where
  "digit_char d = ''0123456789'' ! d"

function to_string :: "nat \<Rightarrow> string" where
  "to_string n = (if n < 10 then [digit_char n] else to_string (n div 10) @ [digit_char (n mod 10)])"
  by pat_completeness auto
termination
  by (relation "measure id") auto

declare to_string.simps [simp del]

text \<open>
  The body of the function on the matrix behind the handle: the conversion goes into the
  local \<^verbatim>\<open>gray\<close>, the string is built from \<^verbatim>\<open>mat.cols\<close> and \<^verbatim>\<open>mat.rows\<close>.  The result
  holds the local next to the string, so that theorems can speak about it.
\<close>

definition processImage_body :: "cv_lib \<Rightarrow> Mat \<Rightarrow> failure + (Mat \<times> string)" where
  "processImage_body lib mat =
     (case cvtColor_BGR2GRAY lib mat of
        Inl e \<Rightarrow> Inl e
      | Inr gray \<Rightarrow>
          Inr (gray, ''Image processed: '' @ to_string (cols mat) @ ''x'' @ to_string (rows mat)))"

definition nativeProcessImage :: "cv_lib \<Rightarrow> heap \<Rightarrow> jlong \<Rightarrow> (failure + string) \<times> heap" where
  "nativeProcessImage lib h matAddr =
     (case h matAddr of
        None \<Rightarrow> (Inl BadHandle, h)
      | Some mat \<Rightarrow>
          (case processImage_body lib mat of
             Inl e \<Rightarrow> (Inl e, h)
           | Inr (gray, result) \<Rightarrow> (Inr result, h)))"

section \<open>nativeFindContours\<close>

text \<open>
  \<^verbatim>\<open>cv::findContours(mat, contours, hierarchy, cv::RETR_TREE, cv::CHAIN_APPROX_SIMPLE)\<close> is
  library code as well; the source only calls it and returns \<^verbatim>\<open>contours.size()\<close>.  A point
  is \<open>(x, y)\<close>; a hierarchy entry is \<open>(next, previous, first child, parent)\<close>.
\<close>

type_synonym point = "int \<times> int"
type_synonym vec4i = "int \<times> int \<times> int \<times> int"

text \<open>
  Modelled from the spec: the border following inside \<^verbatim>\<open>cv::findContours\<close>, which is OpenCV
  code and not in the repository.  Section 4.2 of the specification describes it at design
  level only, so its two steps are parameters: \<open>follow\<close> traces one boundary in the image
  being scanned from its start pixel (row, column) and returns the compressed point list,
  the enlarged list of visited pixels, and the image as the tracing leaves it (section 9:
  the search may write into the image it is handed); \<open>link\<close> extends the hierarchy for
  the contour just found.
\<close>

record border_follower =
  follow :: "Mat \<Rightarrow> (nat \<times> nat) list \<Rightarrow> nat \<times> nat \<Rightarrow> point list \<times> (nat \<times> nat) list \<times> Mat"
  link :: "Mat \<Rightarrow> point list list \<Rightarrow> vec4i list \<Rightarrow> nat \<times> nat \<Rightarrow> vec4i list"

text \<open>
  Modelled from the spec: the state the scan of \<^verbatim>\<open>cv::findContours\<close> carries (sections 4.2
  and 9): the image being scanned, as the tracing so far has left it, the pixels marked as
  visited, the contours in discovery order, and the hierarchy links.
\<close>

record scan_state =
  work :: Mat
  marks :: "(nat \<times> nat) list"
  found :: "point list list"
  links :: "vec4i list"

text \<open>
  Modelled from the spec: the foreground test of \<^verbatim>\<open>cv::findContours\<close> (section 4.2: the
  buffer is treated as binary, non-zero pixels are foreground).
\<close>

definition foreground :: "Mat \<Rightarrow> nat \<Rightarrow> nat \<Rightarrow> bool" where
  "foreground img y x =
     (y < rows img \<and> x < cols img \<and> y * cols img + x < length (data img) \<and>
      data img ! (y * cols img + x) \<noteq> 0)"

text \<open>
  Modelled from the spec: the boundary test of \<^verbatim>\<open>cv::findContours\<close> (section 4.2: the pixel
  has a background neighbour or is adjacent to the image edge).  The neighbours are the
  four pixels that share an edge with it.
\<close>

definition on_boundary :: "Mat \<Rightarrow> nat \<Rightarrow> nat \<Rightarrow> bool" where
  "on_boundary img y x =
     (y = 0 \<or> x = 0 \<or> y + 1 = rows img \<or> x + 1 = cols img \<or>
      list_ex (\<lambda>(v, u). \<not> foreground img v u) [(y - 1, x), (y, x - 1), (y, x + 1), (y + 1, x)])"

text \<open>
  Modelled from the spec: one step of the scan of \<^verbatim>\<open>cv::findContours\<close> (section 4.2): at an
  unvisited foreground pixel on a boundary the boundary is traced, its pixels are marked,
  and the contour is appended with its hierarchy links; at any other pixel nothing happens
  and nothing is written.
\<close>

definition scan_step :: "border_follower \<Rightarrow> scan_state \<Rightarrow> nat \<times> nat \<Rightarrow> scan_state" where
  "scan_step bf st p =
     (if foreground (work st) (fst p) (snd p) \<and> p \<notin> set (marks st) \<and>
         on_boundary (work st) (fst p) (snd p)
      then (let (c, vis, left) = follow bf (work st) (marks st) p;
                cs = found st @ [c]
            in \<lparr>work = left, marks = vis, found = cs, links = link bf (work st) cs (links st) p\<rparr>)
      else st)"

text \<open>
  Modelled from the spec: the order in which \<^verbatim>\<open>cv::findContours\<close> visits the pixels
  (section 4.2: raster order, top to bottom and left to right), as (row, column) pairs.
\<close>

definition raster :: "Mat \<Rightarrow> (nat \<times> nat) list" where
  "raster img = concat (map (\<lambda>y. map (\<lambda>x. (y, x)) [0..<cols img]) [0..<rows img])"

text \<open>
  Modelled from the spec: the call \<^verbatim>\<open>cv::findContours\<close> with full tree retrieval and
  compressed point lists, which is OpenCV code and not in the repository.  Section 4.2:
  the call fails for a zero-sized buffer and for one that is not a single-channel image;
  otherwise the scan runs over the whole image from the empty state, and the result is the
  contours in discovery order with the hierarchy.  The first component of the result is the
  image as the call leaves it.
\<close>

definition findContours_TREE_SIMPLE ::
    "border_follower \<Rightarrow> Mat \<Rightarrow> failure + (Mat \<times> point list list \<times> vec4i list)" where
  "findContours_TREE_SIMPLE bf img =
     (if mat_empty img \<or> channels img \<noteq> 1 then Inl CvException
      else (let st = foldl (scan_step bf)
                       \<lparr>work = img, marks = [], found = [], links = []\<rparr> (raster img)
            in Inr (work st, found st, links st)))"

text \<open>
  The locals \<^verbatim>\<open>contours\<close> and \<^verbatim>\<open>hierarchy\<close> after the library call, and the native function,
  which returns \<^verbatim>\<open>static_cast<jlong>(contours.size())\<close>.  The source hands \<^verbatim>\<open>mat\<close> itself to
  the library, a reference to the caller's matrix and not a copy of it, so the matrix at
  \<open>matAddr\<close> after a call that returns is the image as the library left it.
\<close>

definition findContours_locals ::
    "border_follower \<Rightarrow> heap \<Rightarrow> jlong \<Rightarrow> failure + (point list list \<times> vec4i list)" where
  "findContours_locals bf h matAddr =
     (case h matAddr of
        None \<Rightarrow> Inl BadHandle
      | Some mat \<Rightarrow>
          (case findContours_TREE_SIMPLE bf mat of
             Inl e \<Rightarrow> Inl e
           | Inr (left, cs, hier) \<Rightarrow> Inr (cs, hier)))"

definition nativeFindContours :: "border_follower \<Rightarrow> heap \<Rightarrow> jlong \<Rightarrow> (failure + jlong) \<times> heap" where
  "nativeFindContours bf h matAddr =
     (case h matAddr of
        None \<Rightarrow> (Inl BadHandle, h)
      | Some mat \<Rightarrow>
          (case findContours_TREE_SIMPLE bf mat of
             Inl e \<Rightarrow> (Inl e, h)
           | Inr (left, cs, hier) \<Rightarrow> (Inr (of_nat (length cs)), h(matAddr \<mapsto> left))))"

section \<open>Buffers and parameter values for evaluation\<close>

text \<open>
  A buffer is valid when it has positive area and its byte count matches its header, and
  it is a pixel buffer of the specification when it has 1, 3 or 4 channels (the
  specification names 1 and 3; the colour conversion also accepts a fourth, ignored one).
\<close>

definition valid_buffer :: "Mat \<Rightarrow> bool" where
  "valid_buffer m =
     (0 < rows m \<and> 0 < cols m \<and> channels m \<in> {1, 3, 4} \<and>
      length (data m) = rows m * cols m * channels m)"

text \<open>
  One value of each parameter, to run the model on concrete buffers: the 14-bit fixed-point
  luma weights (0.114, 0.587, 0.299); a stand-in mean that reads the pixel itself; a
  stand-in Otsu level; the treatment of empty sources of a recent library; a stand-in
  follower that reports the start pixel alone and writes nothing.
\<close>

definition fixed_point_luma :: "uchar \<Rightarrow> uchar \<Rightarrow> uchar \<Rightarrow> uchar" where
  "fixed_point_luma b g r =
     of_nat ((1868 * unat b + 9617 * unat g + 4899 * unat r + 8192) div 16384)"

definition sample_lib :: cv_lib where
  "sample_lib =
     \<lparr>luma = fixed_point_luma,
      gaussian_mean = (\<lambda>blockSize m i. data m ! i),
      otsu_level = (\<lambda>m. 100),
      threshold_rejects_empty = False,
      adaptive_rejects_empty = True\<rparr>"

definition sample_follower :: border_follower where
  "sample_follower =
     \<lparr>follow = (\<lambda>img vis p. ([(int (snd p), int (fst p))], p # vis, img)),
      link = (\<lambda>img cs hier p. hier @ [(-1, -1, -1, -1)])\<rparr>"

definition gray_buffer :: "nat \<Rightarrow> nat \<Rightarrow> uchar list \<Rightarrow> Mat" where
  "gray_buffer r c px = \<lparr>rows = r, cols = c, channels = 1, data = px\<rparr>"

definition bgr_buffer :: "nat \<Rightarrow> nat \<Rightarrow> uchar list \<Rightarrow> Mat" where
  "bgr_buffer r c px = \<lparr>rows = r, cols = c, channels = 3, data = px\<rparr>"

definition heap_with :: "jlong \<Rightarrow> Mat \<Rightarrow> heap" where
  "heap_with a m = (\<lambda>_. None)(a \<mapsto> m)"

section \<open>Binarisation: the output is a two-level single-channel image\<close>

lemma length_bgr2gray_pixels:
  "scn = 3 \<or> scn = 4 \<Longrightarrow> length xs = n * scn \<Longrightarrow> length (bgr2gray_pixels Y scn xs) = n"
proof (induction n arbitrary: xs)
  case 0
  then show ?case by simp
next
  case (Suc n)
  from Suc.prems have "3 \<le> length xs" by auto
  then obtain b g r rest where xs: "xs = b # g # r # rest"
    by (auto simp: Suc_le_length_iff numeral_3_eq_3)
  have "length (drop (scn - 3) rest) = n * scn"
    using Suc.prems xs by auto
  with Suc.IH Suc.prems(1) xs show ?case by simp
qed

lemma threshold_BINARY_header:
  "rows (threshold_BINARY t v m) = rows m" "cols (threshold_BINARY t v m) = cols m"
  "channels (threshold_BINARY t v m) = channels m"
  "length (data (threshold_BINARY t v m)) = length (data m)"
  by (simp_all add: threshold_BINARY_def)

lemma threshold_BINARY_levels: "set (data (threshold_BINARY t v m)) \<subseteq> {0, v}"
  by (auto simp: threshold_BINARY_def)

lemma adaptiveThreshold_header:
  "rows (adaptiveThreshold_GAUSSIAN_BINARY lib v b c m) = rows m"
  "cols (adaptiveThreshold_GAUSSIAN_BINARY lib v b c m) = cols m"
  "channels (adaptiveThreshold_GAUSSIAN_BINARY lib v b c m) = channels m"
  "length (data (adaptiveThreshold_GAUSSIAN_BINARY lib v b c m)) = length (data m)"
  by (simp_all add: adaptiveThreshold_GAUSSIAN_BINARY_def)

lemma adaptiveThreshold_levels:
  "set (data (adaptiveThreshold_GAUSSIAN_BINARY lib v b c m)) \<subseteq> {0, v}"
  by (auto simp: adaptiveThreshold_GAUSSIAN_BINARY_def)

text \<open>The calls of the \<^verbatim>\<open>switch\<close> on a matrix that is not empty.\<close>

lemmas switch_defs = switch_algorithm_def cv_threshold_BINARY_def cv_threshold_BINARY_OTSU_def
  cv_adaptiveThreshold_def

lemma switch_algorithm_nonempty:
  assumes "\<not> mat_empty g"
  shows "\<exists>out. switch_algorithm lib alg g = Inr out \<and> rows out = rows g \<and> cols out = cols g \<and>
               channels out = channels g \<and> length (data out) = length (data g) \<and>
               (alg \<in> {0, 1, 2} \<longrightarrow> set (data out) \<subseteq> {0, 255})"
  using assms threshold_BINARY_levels[of _ 255 g] adaptiveThreshold_levels[of lib 255 _ _ g]
  by (auto simp: switch_defs threshold_BINARY_header adaptiveThreshold_header)

lemma switch_algorithm_fails_iff:
  "(\<exists>e. switch_algorithm lib alg g = Inl e) \<longleftrightarrow>
   mat_empty g \<and> ((alg = 0 \<or> alg = 2) \<and> threshold_rejects_empty lib \<or>
                  alg = 1 \<and> adaptive_rejects_empty lib)"
  by (auto simp: switch_defs)

lemma switch_algorithm_default: "alg \<notin> {0, 1, 2} \<Longrightarrow> switch_algorithm lib alg g = Inr g"
  by (simp add: switch_defs)

lemma switch_algorithm_fixed:
  "\<not> mat_empty g \<Longrightarrow> switch_algorithm lib 0 g = Inr (threshold_BINARY 128 255 g)"
  by (simp add: switch_defs)

lemma convert_if_needed_valid:
  assumes "valid_buffer m"
  shows "\<exists>g. convert_if_needed lib m = Inr g \<and> rows g = rows m \<and> cols g = cols m \<and>
             channels g = 1 \<and> length (data g) = rows m * cols m"
proof (cases "channels m = 1")
  case True
  with assms show ?thesis by (simp add: convert_if_needed_def valid_buffer_def)
next
  case False
  with assms have scn: "channels m = 3 \<or> channels m = 4" and
    len: "length (data m) = (rows m * cols m) * channels m" and pos: "0 < rows m" "0 < cols m"
    by (auto simp: valid_buffer_def)
  from length_bgr2gray_pixels[OF scn len]
  show ?thesis using scn pos
    by (auto simp: convert_if_needed_def cvtColor_BGR2GRAY_def mat_empty_def)
qed

lemma convert_if_needed_size:
  "convert_if_needed lib m = Inr g \<Longrightarrow> rows g = rows m \<and> cols g = cols m"
  by (auto simp: convert_if_needed_def cvtColor_BGR2GRAY_def split: if_splits)

lemma nativeApplyDithering_Some:
  "h a = Some m \<Longrightarrow> convert_if_needed lib m = Inr g \<Longrightarrow> switch_algorithm lib alg g = Inr out \<Longrightarrow>
   nativeApplyDithering lib h a alg = (Inr (), h(a \<mapsto> out))"
  by (simp add: nativeApplyDithering_def)

text \<open>Unfolding sets for evaluation on concrete buffers.\<close>

lemmas sample_defs = sample_lib_def gray_buffer_def bgr_buffer_def heap_with_def
  fixed_point_luma_def valid_buffer_def mat_empty_def

lemmas dithering_defs = nativeApplyDithering_def convert_if_needed_def cvtColor_BGR2GRAY_def
  switch_defs threshold_BINARY_def adaptiveThreshold_GAUSSIAN_BINARY_def

text \<open>
  Claim C1.  For every valid buffer behind the handle (positive area, a byte count that
  matches the header, and 1, 3 or 4 channels) and each of the three algorithms (selector
  0, 1 or 2), \<open>nativeApplyDithering\<close> returns normally and leaves at the handle a
  single-channel matrix of the same size in which every pixel is 0 or 255.
\<close>

theorem binarize_two_levels:
  assumes "h matAddr = Some m" and "valid_buffer m" and "algorithm \<in> {0, 1, 2}"
  shows "\<exists>m'. nativeApplyDithering lib h matAddr algorithm = (Inr (), h(matAddr \<mapsto> m')) \<and>
              channels m' = 1 \<and> rows m' = rows m \<and> cols m' = cols m \<and>
              length (data m') = rows m * cols m \<and> set (data m') \<subseteq> {0, 255}"
proof -
  from convert_if_needed_valid[OF assms(2), of lib] obtain g where
    g: "convert_if_needed lib m = Inr g" "rows g = rows m" "cols g = cols m" "channels g = 1"
       "length (data g) = rows m * cols m" by blast
  from assms(2) g(2,3) have "\<not> mat_empty g"
    by (simp add: valid_buffer_def mat_empty_def)
  from switch_algorithm_nonempty[OF this, of lib algorithm] assms(3) obtain out where
    out: "switch_algorithm lib algorithm g = Inr out" "rows out = rows g" "cols out = cols g"
         "channels out = channels g" "length (data out) = length (data g)"
         "set (data out) \<subseteq> {0, 255}" by blast
  show ?thesis
    using nativeApplyDithering_Some[of h matAddr m lib g algorithm out, OF assms(1) g(1) out(1)]
      g(2-5) out(2-6)
    by (intro exI[of _ out]) simp
qed

text \<open>
  The theorem at a 1 x 2 colour buffer with the Otsu selector: the two pixels have luma
  22 and 212, the stand-in level is 100, the result is the pair 0, 255.
\<close>

theorem binarize_two_levels_witness:
  "valid_buffer (bgr_buffer 1 2 [10, 20, 30, 200, 210, 220]) \<and>
   (\<exists>m'. nativeApplyDithering sample_lib (heap_with 1 (bgr_buffer 1 2 [10, 20, 30, 200, 210, 220])) 1 2
            = (Inr (), (heap_with 1 (bgr_buffer 1 2 [10, 20, 30, 200, 210, 220]))(1 \<mapsto> m')) \<and>
          channels m' = 1 \<and> rows m' = 1 \<and> cols m' = 2 \<and> length (data m') = 2 \<and>
          set (data m') \<subseteq> {0, 255}) \<and>
   snd (nativeApplyDithering sample_lib (heap_with 1 (bgr_buffer 1 2 [10, 20, 30, 200, 210, 220])) 1 2) 1
     = Some (gray_buffer 1 2 [0, 255])"
proof -
  have v: "valid_buffer (bgr_buffer 1 2 [10, 20, 30, 200, 210, 220])"
    by (simp add: sample_defs)
  have a: "heap_with 1 (bgr_buffer 1 2 [10, 20, 30, 200, 210, 220]) 1
             = Some (bgr_buffer 1 2 [10, 20, 30, 200, 210, 220])"
    by (simp add: heap_with_def)
  have e: "snd (nativeApplyDithering sample_lib (heap_with 1 (bgr_buffer 1 2 [10, 20, 30, 200, 210, 220])) 1 2) 1
     = Some (gray_buffer 1 2 [0, 255])"
    by (simp add: sample_defs dithering_defs)
  from binarize_two_levels[where h = "heap_with 1 (bgr_buffer 1 2 [10, 20, 30, 200, 210, 220])"
      and matAddr = 1 and m = "bgr_buffer 1 2 [10, 20, 30, 200, 210, 220]" and algorithm = 2
      and lib = sample_lib] a v e
  show ?thesis
    by (simp add: bgr_buffer_def)
qed

section \<open>FixedGlobal: the fixed threshold 128\<close>

lemma threshold_BINARY_nth:
  "i < length (data g) \<Longrightarrow>
   data (threshold_BINARY t v g) ! i = (if t < unat (data g ! i) then v else 0)"
  by (simp add: threshold_BINARY_def)

text \<open>
  Claim C2, as the code has it.  Under selector 0, for a valid buffer, every pixel of the
  grayscale buffer (the buffer itself when it has one channel, its colour conversion
  otherwise) becomes 255 exactly when its value is strictly greater than 128, and 0
  otherwise: the call passes 128 to \<^verbatim>\<open>THRESH_BINARY\<close>, whose comparison is strict.  So 127
  and 128 give 0, and 129 gives 255.
\<close>

theorem fixed_global_strict:
  assumes "h matAddr = Some m" and "valid_buffer m" and "convert_if_needed lib m = Inr g"
  shows "\<exists>m'. nativeApplyDithering lib h matAddr 0 = (Inr (), h(matAddr \<mapsto> m')) \<and>
              length (data m') = length (data g) \<and>
              (\<forall>i<length (data g). data m' ! i = (if 128 < unat (data g ! i) then 255 else 0))"
proof -
  from assms(2) convert_if_needed_size[OF assms(3)] have "\<not> mat_empty g"
    by (simp add: valid_buffer_def mat_empty_def)
  from nativeApplyDithering_Some[of h matAddr m lib g 0, OF assms(1,3) switch_algorithm_fixed[OF this]]
  show ?thesis
    by (intro exI[of _ "threshold_BINARY 128 255 g"])
       (simp add: threshold_BINARY_header threshold_BINARY_nth)
qed

text \<open>The theorem at the three boundary pixels 127, 128, 129, which become 0, 0, 255.\<close>

theorem fixed_global_strict_witness:
  "(\<exists>m'. nativeApplyDithering sample_lib (heap_with 1 (gray_buffer 1 3 [127, 128, 129])) 1 0
            = (Inr (), (heap_with 1 (gray_buffer 1 3 [127, 128, 129]))(1 \<mapsto> m')) \<and>
          length (data m') = length (data (gray_buffer 1 3 [127, 128, 129])) \<and>
          (\<forall>i<length (data (gray_buffer 1 3 [127, 128, 129])).
             data m' ! i = (if 128 < unat (data (gray_buffer 1 3 [127, 128, 129]) ! i) then 255 else 0))) \<and>
   snd (nativeApplyDithering sample_lib (heap_with 1 (gray_buffer 1 3 [127, 128, 129])) 1 0) 1
     = Some (gray_buffer 1 3 [0, 0, 255])"
proof -
  have a: "heap_with 1 (gray_buffer 1 3 [127, 128, 129]) 1 = Some (gray_buffer 1 3 [127, 128, 129])"
    by (simp add: heap_with_def)
  have v: "valid_buffer (gray_buffer 1 3 [127, 128, 129])"
    by (simp add: sample_defs)
  have c: "convert_if_needed sample_lib (gray_buffer 1 3 [127, 128, 129])
             = Inr (gray_buffer 1 3 [127, 128, 129])"
    by (simp add: convert_if_needed_def gray_buffer_def)
  have e: "snd (nativeApplyDithering sample_lib (heap_with 1 (gray_buffer 1 3 [127, 128, 129])) 1 0) 1
     = Some (gray_buffer 1 3 [0, 0, 255])"
    by (simp add: sample_defs dithering_defs)
  from fixed_global_strict[where h = "heap_with 1 (gray_buffer 1 3 [127, 128, 129])" and matAddr = 1
      and m = "gray_buffer 1 3 [127, 128, 129]" and lib = sample_lib
      and g = "gray_buffer 1 3 [127, 128, 129]", OF a v c] e
  show ?thesis
    by (rule conjI)
qed

text \<open>
  The claim as written asks for the high level from 128 on.  A pixel of value 128 is not
  below the threshold, and the code maps it to 0.
\<close>

theorem fixed_global_at_threshold_counterexample:
  "128 \<le> unat (128 :: uchar) \<and>
   snd (nativeApplyDithering sample_lib (heap_with 1 (gray_buffer 1 1 [128])) 1 0) 1
     = Some (gray_buffer 1 1 [0])"
  by (simp add: sample_defs dithering_defs)

section \<open>Failures of nativeApplyDithering\<close>

lemma convert_if_needed_fails_iff:
  "(\<exists>e. convert_if_needed lib m = Inl e) \<longleftrightarrow>
   1 < channels m \<and> (mat_empty m \<or> (channels m \<noteq> 3 \<and> channels m \<noteq> 4))"
  by (auto simp: convert_if_needed_def cvtColor_BGR2GRAY_def)

text \<open>An empty matrix after the first statement is the matrix before it.\<close>

lemma convert_if_needed_empty:
  "convert_if_needed lib m = Inr g \<Longrightarrow> mat_empty g \<Longrightarrow> g = m \<and> channels m \<le> 1"
  by (auto simp: convert_if_needed_def cvtColor_BGR2GRAY_def mat_empty_def split: if_splits)

lemma nativeApplyDithering_failure_frame:
  assumes "fst (nativeApplyDithering lib h a alg) = Inl e"
  shows "snd (nativeApplyDithering lib h a alg) = h"
proof (cases "h a")
  case None
  then show ?thesis by (simp add: nativeApplyDithering_def)
next
  case (Some m)
  show ?thesis
  proof (cases "convert_if_needed lib m")
    case (Inl e')
    with Some show ?thesis by (simp add: nativeApplyDithering_def)
  next
    case (Inr g)
    with Some assms obtain e' where sw: "switch_algorithm lib alg g = Inl e'"
      by (auto simp: nativeApplyDithering_def Let_def split: sum.splits)
    then have "mat_empty g" using switch_algorithm_fails_iff[of lib alg g] by blast
    with Inr have "g = m" using convert_if_needed_empty by blast
    with Some Inr sw show ?thesis
      by (simp add: nativeApplyDithering_def map_upd_triv)
  qed
qed

lemma nativeApplyDithering_fails_iff:
  "(\<exists>e. fst (nativeApplyDithering lib h a alg) = Inl e) \<longleftrightarrow>
   (case h a of
      None \<Rightarrow> True
    | Some m \<Rightarrow>
        1 < channels m \<and> (mat_empty m \<or> (channels m \<noteq> 3 \<and> channels m \<noteq> 4)) \<or>
        channels m \<le> 1 \<and> mat_empty m \<and>
          ((alg = 0 \<or> alg = 2) \<and> threshold_rejects_empty lib \<or> alg = 1 \<and> adaptive_rejects_empty lib))"
proof (cases "h a")
  case None
  then show ?thesis by (simp add: nativeApplyDithering_def)
next
  case (Some m)
  show ?thesis
  proof (cases "convert_if_needed lib m")
    case (Inl e')
    then have "1 < channels m \<and> (mat_empty m \<or> (channels m \<noteq> 3 \<and> channels m \<noteq> 4))"
      using convert_if_needed_fails_iff[of lib m] by blast
    with Some Inl show ?thesis by (simp add: nativeApplyDithering_def)
  next
    case (Inr g)
    then have nf: "\<not> (1 < channels m \<and> (mat_empty m \<or> (channels m \<noteq> 3 \<and> channels m \<noteq> 4)))"
      using convert_if_needed_fails_iff[of lib m] by auto
    have "(\<exists>e. fst (nativeApplyDithering lib h a alg) = Inl e) \<longleftrightarrow>
          (\<exists>e. switch_algorithm lib alg g = Inl e)"
      using Some Inr by (auto simp: nativeApplyDithering_def Let_def split: sum.splits)
    also have "\<dots> \<longleftrightarrow> mat_empty g \<and> ((alg = 0 \<or> alg = 2) \<and> threshold_rejects_empty lib \<or>
                  alg = 1 \<and> adaptive_rejects_empty lib)"
      by (rule switch_algorithm_fails_iff)
    also have "\<dots> \<longleftrightarrow> channels m \<le> 1 \<and> mat_empty m \<and>
          ((alg = 0 \<or> alg = 2) \<and> threshold_rejects_empty lib \<or> alg = 1 \<and> adaptive_rejects_empty lib)"
      using convert_if_needed_empty[OF Inr] Inr nf
      by (auto simp: convert_if_needed_def split: if_splits)
    finally show ?thesis using Some nf by auto
  qed
qed

text \<open>
  Claim C3, as the code has it.  The function checks nothing itself.  It fails exactly
  when the handle holds no matrix, or the matrix has more than one channel and the colour
  conversion rejects it (zero-sized, or neither 3 nor 4 channels), or the matrix is a
  zero-sized single-channel one and the library call of the selected case rejects an
  empty source.  A zero-sized single-channel matrix with a selector that no case matches
  is accepted and left as it is.  Whenever a library call raises, the heap is the one the
  function was called with, and for every valid buffer the function returns normally.
\<close>

theorem binarize_unvalidated:
  "(fst (nativeApplyDithering lib h a alg) = Inl CvException \<longrightarrow>
      snd (nativeApplyDithering lib h a alg) = h) \<and>
   ((\<exists>e. fst (nativeApplyDithering lib h a alg) = Inl e) \<longleftrightarrow>
      (case h a of
         None \<Rightarrow> True
       | Some m \<Rightarrow>
           1 < channels m \<and> (mat_empty m \<or> (channels m \<noteq> 3 \<and> channels m \<noteq> 4)) \<or>
           channels m \<le> 1 \<and> mat_empty m \<and>
             ((alg = 0 \<or> alg = 2) \<and> threshold_rejects_empty lib \<or> alg = 1 \<and> adaptive_rejects_empty lib))) \<and>
   (\<forall>m. h a = Some m \<and> valid_buffer m \<longrightarrow> fst (nativeApplyDithering lib h a alg) = Inr ()) \<and>
   (\<forall>m. h a = Some m \<and> channels m \<le> 1 \<and> alg \<notin> {0, 1, 2} \<longrightarrow>
        nativeApplyDithering lib h a alg = (Inr (), h))"
proof (intro conjI allI impI)
  assume "fst (nativeApplyDithering lib h a alg) = Inl CvException"
  then show "snd (nativeApplyDithering lib h a alg) = h"
    by (rule nativeApplyDithering_failure_frame)
next
  show "(\<exists>e. fst (nativeApplyDithering lib h a alg) = Inl e) \<longleftrightarrow>
      (case h a of
         None \<Rightarrow> True
       | Some m \<Rightarrow>
           1 < channels m \<and> (mat_empty m \<or> (channels m \<noteq> 3 \<and> channels m \<noteq> 4)) \<or>
           channels m \<le> 1 \<and> mat_empty m \<and>
             ((alg = 0 \<or> alg = 2) \<and> threshold_rejects_empty lib \<or> alg = 1 \<and> adaptive_rejects_empty lib))"
    by (rule nativeApplyDithering_fails_iff)
next
  fix m assume "h a = Some m \<and> valid_buffer m"
  then have m: "h a = Some m" "valid_buffer m" by simp_all
  from convert_if_needed_valid[OF m(2), of lib] obtain g where
    g: "convert_if_needed lib m = Inr g" "rows g = rows m" "cols g = cols m" by blast
  with m(2) have "\<not> mat_empty g" by (simp add: valid_buffer_def mat_empty_def)
  from switch_algorithm_nonempty[OF this, of lib alg] obtain out where
    "switch_algorithm lib alg g = Inr out" by blast
  from nativeApplyDithering_Some[of h a m lib g alg out, OF m(1) g(1) this]
  show "fst (nativeApplyDithering lib h a alg) = Inr ()" by simp
next
  fix m assume "h a = Some m \<and> channels m \<le> 1 \<and> alg \<notin> {0, 1, 2}"
  then show "nativeApplyDithering lib h a alg = (Inr (), h)"
    by (simp add: nativeApplyDithering_def convert_if_needed_def switch_algorithm_default
        map_upd_triv)
qed

text \<open>
  The theorem at a zero-sized colour buffer, where the conversion raises and the heap is
  unchanged; at a zero-sized single-channel buffer with the adaptive selector, where the
  library call raises and the heap is unchanged; and at a valid 1 x 1 buffer, where the
  call returns.
\<close>

theorem binarize_unvalidated_witness:
  "fst (nativeApplyDithering sample_lib (heap_with 1 (bgr_buffer 0 0 [])) 1 0) = Inl CvException \<and>
   snd (nativeApplyDithering sample_lib (heap_with 1 (bgr_buffer 0 0 [])) 1 0) = heap_with 1 (bgr_buffer 0 0 []) \<and>
   fst (nativeApplyDithering sample_lib (heap_with 1 (gray_buffer 0 0 [])) 1 1) = Inl CvException \<and>
   snd (nativeApplyDithering sample_lib (heap_with 1 (gray_buffer 0 0 [])) 1 1) = heap_with 1 (gray_buffer 0 0 []) \<and>
   fst (nativeApplyDithering sample_lib (heap_with 1 (gray_buffer 1 1 [9])) 1 0) = Inr ()"
proof -
  have f: "fst (nativeApplyDithering sample_lib (heap_with 1 (bgr_buffer 0 0 [])) 1 0) = Inl CvException"
    "fst (nativeApplyDithering sample_lib (heap_with 1 (gray_buffer 0 0 [])) 1 1) = Inl CvException"
    by (simp_all add: sample_defs dithering_defs)
  have v: "heap_with 1 (gray_buffer 1 1 [9]) 1 = Some (gray_buffer 1 1 [9]) \<and> valid_buffer (gray_buffer 1 1 [9])"
    by (simp add: sample_defs)
  from binarize_unvalidated[of sample_lib "heap_with 1 (bgr_buffer 0 0 [])" 1 0] f(1)
  have 1: "snd (nativeApplyDithering sample_lib (heap_with 1 (bgr_buffer 0 0 [])) 1 0) = heap_with 1 (bgr_buffer 0 0 [])"
    by blast
  from binarize_unvalidated[of sample_lib "heap_with 1 (gray_buffer 0 0 [])" 1 1] f(2)
  have 2: "snd (nativeApplyDithering sample_lib (heap_with 1 (gray_buffer 0 0 [])) 1 1) = heap_with 1 (gray_buffer 0 0 [])"
    by blast
  from binarize_unvalidated[of sample_lib "heap_with 1 (gray_buffer 1 1 [9])" 1 0] v
  have 3: "fst (nativeApplyDithering sample_lib (heap_with 1 (gray_buffer 1 1 [9])) 1 0) = Inr ()"
    by blast
  from f 1 2 3 show ?thesis by simp
qed

text \<open>
  The claim as written has every zero-sized buffer rejected.  A zero-sized single-channel
  buffer with a selector that no case matches passes through both statements of the
  function without any library call: the call returns normally.
\<close>

theorem binarize_accepts_empty_counterexample:
  "rows (gray_buffer 0 0 []) = 0 \<and> cols (gray_buffer 0 0 []) = 0 \<and>
   nativeApplyDithering sample_lib (heap_with 1 (gray_buffer 0 0 [])) 1 7
     = (Inr (), heap_with 1 (gray_buffer 0 0 []))"
  by (simp add: sample_defs dithering_defs)

section \<open>Selectors outside 0, 1, 2\<close>

lemma grayscale_only_single_channel:
  "h a = Some m \<Longrightarrow> channels m \<le> 1 \<Longrightarrow> grayscale_only lib h a = (Inr (), h)"
  by (simp add: grayscale_only_def convert_if_needed_def map_upd_triv)

text \<open>
  Claim C5.  For every selector other than 0, 1 and 2, and every heap and handle,
  \<open>nativeApplyDithering\<close> does exactly what the grayscale reduction alone does (the same
  outcome and the same heap); a buffer that already has a single channel is left
  unchanged.
\<close>

theorem unknown_selector_is_grayscale_only:
  assumes "algorithm \<notin> {0, 1, 2}"
  shows "nativeApplyDithering lib h matAddr algorithm = grayscale_only lib h matAddr \<and>
         (\<forall>m. h matAddr = Some m \<and> channels m \<le> 1 \<longrightarrow>
              nativeApplyDithering lib h matAddr algorithm = (Inr (), h))"
proof -
  have eq: "nativeApplyDithering lib h matAddr algorithm = grayscale_only lib h matAddr"
    by (simp add: nativeApplyDithering_def grayscale_only_def switch_algorithm_default[OF assms]
        Let_def split: option.splits sum.splits)
  then show ?thesis by (simp add: grayscale_only_single_channel)
qed

text \<open>
  The theorem at selector 7 on a colour pixel, which becomes its luma 22, and at selector
  -1 on a grayscale buffer, which stays as it is.
\<close>

theorem unknown_selector_is_grayscale_only_witness:
  "(7 :: jint) \<notin> {0, 1, 2} \<and>
   nativeApplyDithering sample_lib (heap_with 1 (bgr_buffer 1 1 [10, 20, 30])) 1 7
     = grayscale_only sample_lib (heap_with 1 (bgr_buffer 1 1 [10, 20, 30])) 1 \<and>
   snd (nativeApplyDithering sample_lib (heap_with 1 (bgr_buffer 1 1 [10, 20, 30])) 1 7) 1
     = Some (gray_buffer 1 1 [22]) \<and>
   nativeApplyDithering sample_lib (heap_with 1 (gray_buffer 1 2 [100, 200])) 1 (- 1)
     = (Inr (), heap_with 1 (gray_buffer 1 2 [100, 200]))"
proof -
  have n: "(7 :: jint) \<notin> {0, 1, 2}" "(- 1 :: jint) \<notin> {0, 1, 2}" by simp_all
  have s: "heap_with 1 (gray_buffer 1 2 [100, 200]) 1 = Some (gray_buffer 1 2 [100, 200]) \<and>
           channels (gray_buffer 1 2 [100, 200]) \<le> 1"
    by (simp add: sample_defs)
  have e: "snd (grayscale_only sample_lib (heap_with 1 (bgr_buffer 1 1 [10, 20, 30])) 1) 1
     = Some (gray_buffer 1 1 [22])"
    by (simp add: sample_defs grayscale_only_def convert_if_needed_def cvtColor_BGR2GRAY_def)
  from unknown_selector_is_grayscale_only[OF n(1), of sample_lib "heap_with 1 (bgr_buffer 1 1 [10, 20, 30])" 1]
  have 1: "nativeApplyDithering sample_lib (heap_with 1 (bgr_buffer 1 1 [10, 20, 30])) 1 7
     = grayscale_only sample_lib (heap_with 1 (bgr_buffer 1 1 [10, 20, 30])) 1" by blast
  from unknown_selector_is_grayscale_only[OF n(2), of sample_lib "heap_with 1 (gray_buffer 1 2 [100, 200])" 1] s
  have 2: "nativeApplyDithering sample_lib (heap_with 1 (gray_buffer 1 2 [100, 200])) 1 (- 1)
     = (Inr (), heap_with 1 (gray_buffer 1 2 [100, 200]))" by blast
  from n(1) 1 2 e show ?thesis by simp
qed

section \<open>FixedGlobal twice\<close>

lemma threshold_BINARY_idem:
  "t < 255 \<Longrightarrow> threshold_BINARY t 255 (threshold_BINARY t 255 m) = threshold_BINARY t 255 m"
  by (simp add: threshold_BINARY_def)

text \<open>
  Claim C10.  For every valid single-channel buffer, a second call with selector 0 on the
  heap the first call left returns the same outcome and the same heap as the first call:
  0 is not above 128 and stays 0, 255 is above 128 and stays 255.
\<close>

theorem fixed_global_idempotent:
  assumes "h matAddr = Some m" and "valid_buffer m" and "channels m = 1"
  shows "nativeApplyDithering lib (snd (nativeApplyDithering lib h matAddr 0)) matAddr 0
           = nativeApplyDithering lib h matAddr 0"
proof -
  let ?t = "threshold_BINARY 128 255 m"
  have ne: "\<not> mat_empty m" "\<not> mat_empty ?t"
    using assms(2) by (simp_all add: valid_buffer_def mat_empty_def threshold_BINARY_header)
  have c: "convert_if_needed lib m = Inr m" "convert_if_needed lib ?t = Inr ?t"
    using assms(3) by (simp_all add: convert_if_needed_def threshold_BINARY_header)
  have first: "nativeApplyDithering lib h matAddr 0 = (Inr (), h(matAddr \<mapsto> ?t))"
    using nativeApplyDithering_Some[of h matAddr m lib m 0, OF assms(1) c(1)
        switch_algorithm_fixed[OF ne(1)]] .
  have "nativeApplyDithering lib (h(matAddr \<mapsto> ?t)) matAddr 0
          = (Inr (), (h(matAddr \<mapsto> ?t))(matAddr \<mapsto> threshold_BINARY 128 255 ?t))"
    using nativeApplyDithering_Some[of "h(matAddr \<mapsto> ?t)" matAddr ?t lib ?t 0, OF _ c(2)
        switch_algorithm_fixed[OF ne(2)]]
    by simp
  then show ?thesis
    by (simp add: first threshold_BINARY_idem)
qed

text \<open>The theorem at a 2 x 2 buffer holding 0, 128, 129, 255, which becomes 0, 0, 255, 255.\<close>

theorem fixed_global_idempotent_witness:
  "valid_buffer (gray_buffer 2 2 [0, 128, 129, 255]) \<and>
   nativeApplyDithering sample_lib
       (snd (nativeApplyDithering sample_lib (heap_with 1 (gray_buffer 2 2 [0, 128, 129, 255])) 1 0)) 1 0
     = nativeApplyDithering sample_lib (heap_with 1 (gray_buffer 2 2 [0, 128, 129, 255])) 1 0 \<and>
   snd (nativeApplyDithering sample_lib (heap_with 1 (gray_buffer 2 2 [0, 128, 129, 255])) 1 0) 1
     = Some (gray_buffer 2 2 [0, 0, 255, 255])"
proof -
  have a: "heap_with 1 (gray_buffer 2 2 [0, 128, 129, 255]) 1 = Some (gray_buffer 2 2 [0, 128, 129, 255])"
    by (simp add: heap_with_def)
  have v: "valid_buffer (gray_buffer 2 2 [0, 128, 129, 255])" by (simp add: sample_defs)
  have c: "channels (gray_buffer 2 2 [0, 128, 129, 255]) = 1" by (simp add: gray_buffer_def)
  have e: "snd (nativeApplyDithering sample_lib (heap_with 1 (gray_buffer 2 2 [0, 128, 129, 255])) 1 0) 1
     = Some (gray_buffer 2 2 [0, 0, 255, 255])"
    by (simp add: sample_defs dithering_defs)
  from fixed_global_idempotent[where h = "heap_with 1 (gray_buffer 2 2 [0, 128, 129, 255])"
      and matAddr = 1 and m = "gray_buffer 2 2 [0, 128, 129, 255]" and lib = sample_lib, OF a v c] v e
  show ?thesis by simp
qed

section \<open>Contour tracing: an image without foreground\<close>

lemma background_not_foreground: "set (data img) \<subseteq> {0} \<Longrightarrow> \<not> foreground img y x"
  by (auto simp: foreground_def dest: nth_mem)

lemma scan_step_background: "set (data (work st)) \<subseteq> {0} \<Longrightarrow> scan_step bf st p = st"
  by (simp add: scan_step_def background_not_foreground)

lemma scan_background: "set (data (work st)) \<subseteq> {0} \<Longrightarrow> foldl (scan_step bf) st ps = st"
  by (induction ps arbitrary: st) (simp_all add: scan_step_background)

text \<open>
  Claim C7.  For every single-channel buffer of positive area whose pixels are all zero,
  the contour sequence and the hierarchy are empty after the library call, and
  \<open>nativeFindContours\<close> returns 0 (whatever the border follower would do at a start
  pixel: the scan finds none, so nothing is traced and nothing is written).
\<close>

theorem all_background_no_contours:
  assumes "h matAddr = Some m" and "channels m = 1" and "0 < rows m" and "0 < cols m"
    and "set (data m) \<subseteq> {0}"
  shows "findContours_locals bf h matAddr = Inr ([], []) \<and>
         nativeFindContours bf h matAddr = (Inr 0, h)"
proof -
  have "foldl (scan_step bf) \<lparr>work = m, marks = [], found = [], links = []\<rparr> (raster m)
          = \<lparr>work = m, marks = [], found = [], links = []\<rparr>"
    by (rule scan_background) (simp add: assms(5))
  then have "findContours_TREE_SIMPLE bf m = Inr (m, [], [])"
    using assms(2-4) by (simp add: findContours_TREE_SIMPLE_def mat_empty_def)
  with assms(1) show ?thesis
    by (simp add: findContours_locals_def nativeFindContours_def map_upd_triv)
qed

text \<open>The theorem at a 2 x 2 image of zeros.\<close>

theorem all_background_no_contours_witness:
  "set (data (gray_buffer 2 2 [0, 0, 0, 0])) \<subseteq> {0} \<and>
   findContours_locals sample_follower (heap_with 1 (gray_buffer 2 2 [0, 0, 0, 0])) 1 = Inr ([], []) \<and>
   nativeFindContours sample_follower (heap_with 1 (gray_buffer 2 2 [0, 0, 0, 0])) 1
     = (Inr 0, heap_with 1 (gray_buffer 2 2 [0, 0, 0, 0]))"
proof -
  have a: "heap_with 1 (gray_buffer 2 2 [0, 0, 0, 0]) 1 = Some (gray_buffer 2 2 [0, 0, 0, 0])"
    by (simp add: heap_with_def)
  have b: "channels (gray_buffer 2 2 [0, 0, 0, 0]) = 1" "0 < rows (gray_buffer 2 2 [0, 0, 0, 0])"
    "0 < cols (gray_buffer 2 2 [0, 0, 0, 0])" "set (data (gray_buffer 2 2 [0, 0, 0, 0])) \<subseteq> {0}"
    by (simp_all add: gray_buffer_def)
  from all_background_no_contours[where h = "heap_with 1 (gray_buffer 2 2 [0, 0, 0, 0])" and matAddr = 1
      and m = "gray_buffer 2 2 [0, 0, 0, 0]" and bf = sample_follower, OF a b] b(4)
  show ?thesis by simp
qed

text \<open>
  What the call does to a buffer with foreground is the follower's business.  The function
  itself adds nothing to it: the matrix at the handle afterwards is the image as the
  library call left it, and a call that raises leaves the heap as it was.
\<close>

lemma nativeFindContours_hands_over_the_buffer:
  "h matAddr = Some m \<Longrightarrow>
   snd (nativeFindContours bf h matAddr)
     = (case findContours_TREE_SIMPLE bf m of
          Inl e \<Rightarrow> h
        | Inr (left, cs, hier) \<Rightarrow> h(matAddr \<mapsto> left))"
  by (simp add: nativeFindContours_def split: sum.splits prod.splits)

section \<open>The grayscale report\<close>

lemma processImage_body_colour:
  assumes "0 < rows m" and "0 < cols m" and "channels m = 3 \<or> channels m = 4"
  shows "\<exists>gray. processImage_body lib m
            = Inr (gray, ''Image processed: '' @ to_string (cols m) @ ''x'' @ to_string (rows m)) \<and>
          channels gray = 1 \<and> rows gray = rows m \<and> cols gray = cols m"
  using assms by (auto simp: processImage_body_def cvtColor_BGR2GRAY_def mat_empty_def)

text \<open>
  On every buffer the function leaves the heap as it was, and on a non-empty buffer with 3
  or 4 channels it returns the string built from the columns and rows of that buffer.
\<close>

lemma nativeProcessImage_frame: "snd (nativeProcessImage lib h matAddr) = h"
  by (simp add: nativeProcessImage_def split: option.splits sum.splits prod.splits)

lemma nativeProcessImage_colour:
  assumes "h matAddr = Some m" and "0 < rows m" and "0 < cols m"
    and "channels m = 3 \<or> channels m = 4"
  shows "nativeProcessImage lib h matAddr
           = (Inr (''Image processed: '' @ to_string (cols m) @ ''x'' @ to_string (rows m)), h)"
proof -
  from processImage_body_colour[OF assms(2-4), of lib] obtain gray where
    "processImage_body lib m
       = Inr (gray, ''Image processed: '' @ to_string (cols m) @ ''x'' @ to_string (rows m))"
    by blast
  with assms(1) show ?thesis by (simp add: nativeProcessImage_def)
qed

text \<open>
  Claim C9.  The claim has the status string returned for every input buffer.  On a 1 x 1
  single-channel buffer the function returns no string: line 14 of the source calls
  \<^verbatim>\<open>cvtColor\<close> with \<^verbatim>\<open>COLOR_BGR2GRAY\<close> without the test \<^verbatim>\<open>mat.channels() > 1\<close> that guards the
  same conversion in \<open>nativeApplyDithering\<close>, and the library raises on a source that has
  neither 3 nor 4 channels.  The heap is unchanged.
\<close>

theorem report_raises_on_single_channel:
  "channels (gray_buffer 1 1 [7]) = 1 \<and>
   nativeProcessImage sample_lib (heap_with 1 (gray_buffer 1 1 [7])) 1
     = (Inl CvException, heap_with 1 (gray_buffer 1 1 [7]))"
  by (simp add: sample_defs nativeProcessImage_def processImage_body_def cvtColor_BGR2GRAY_def)

section \<open>AutoGlobal: how the selected level is used\<close>

text \<open>
  The source passes \<^verbatim>\<open>THRESH_BINARY | THRESH_OTSU\<close>: whatever level the library selects for
  the grayscale image is applied to every pixel with the same strict comparison as the
  fixed threshold.  The selection itself happens inside the library, in floating point.
\<close>

lemma otsu_level_applied_globally:
  "\<not> mat_empty g \<Longrightarrow> switch_algorithm lib 2 g = Inr (threshold_BINARY (otsu_level lib g) 255 g)"
  by (simp add: switch_defs)

end
